theory Spec2Isabelle
  imports Complex_Main "HOL-Library.Log_Nat" "HOL-Library.Word" "HOL-Library.Sublist"
begin

section \<open>Go values used by package forecast\<close>

subsection \<open>float64\<close>

text \<open>
  A float64 is a finite value (a rational; \<open>Fin 0\<close> is +0), the negative zero, an
  infinity or NaN.  Every finite double is a rational, and the arithmetic below
  rounds the exact result to the nearest double, ties to even, as IEEE 754
  binary64 does: the value is a multiple \<open>m * ulp\<close> of the spacing \<open>ulp\<close> of the
  doubles around it, which is \<open>2 powi (e - 52)\<close> at the binary exponent \<open>e\<close> and
  \<open>2 powi (- 1074)\<close> below the least exponent -1022; a rounded magnitude of
  \<open>2 powi 1024\<close> or more is an infinity.
\<close>

datatype float64 = Fin rat | NegZero | PInf | NInf | NaN

definition flog2 :: "rat \<Rightarrow> int" where
  "flog2 a = (let (n, d) = quotient_of a; k = bitlen n - bitlen d
              in if 2 powi k \<le> a then k else k - 1)"

definition round_half_even :: "rat \<Rightarrow> int" where
  "round_half_even x = (let f = \<lfloor>x\<rfloor>; d = x - of_int f
     in if d < 1/2 then f else if 1/2 < d then f + 1 else if even f then f else f + 1)"

definition zero_of :: "bool \<Rightarrow> float64" where
  "zero_of neg = (if neg then NegZero else Fin 0)"

definition inf_of :: "bool \<Rightarrow> float64" where
  "inf_of neg = (if neg then NInf else PInf)"

definition round64 :: "rat \<Rightarrow> float64" where
  "round64 q = (if q = 0 then Fin 0 else
     let a = \<bar>q\<bar>; e = max (flog2 a) (- 1022); ulp = 2 powi (e - 52);
         m = round_half_even (a / ulp)
     in if 1024 \<le> e \<or> (e = 1023 \<and> 2 ^ 53 \<le> m) then inf_of (q < 0)
        else if m = 0 then zero_of (q < 0)
        else Fin ((if q < 0 then - 1 else 1) * of_int m * ulp))"

text \<open>The greatest finite float64.\<close>

definition max_float64 :: rat where
  "max_float64 = 2 powi 1024 - 2 powi 971"

fun f_val :: "float64 \<Rightarrow> rat" where
  "f_val (Fin q) = q"
| "f_val _ = 0"

fun signbit :: "float64 \<Rightarrow> bool" where
  "signbit (Fin q) = (q < 0)"
| "signbit NegZero = True"
| "signbit NInf = True"
| "signbit _ = False"

definition is_inf :: "float64 \<Rightarrow> bool" where
  "is_inf x = (x = PInf \<or> x = NInf)"

definition is_zero :: "float64 \<Rightarrow> bool" where
  "is_zero x = (x = Fin 0 \<or> x = NegZero)"

text \<open>\<open>x + y\<close>, \<open>x * y\<close> and \<open>x / y\<close> on float64.\<close>

definition f_add :: "float64 \<Rightarrow> float64 \<Rightarrow> float64" where
  "f_add x y =
     (if x = NaN \<or> y = NaN then NaN
      else if is_inf x then (if is_inf y \<and> x \<noteq> y then NaN else x)
      else if is_inf y then y
      else if f_val x + f_val y = 0
        then (if x = NegZero \<and> y = NegZero then NegZero else Fin 0)
      else round64 (f_val x + f_val y))"

definition f_mul :: "float64 \<Rightarrow> float64 \<Rightarrow> float64" where
  "f_mul x y =
     (if x = NaN \<or> y = NaN then NaN
      else if is_inf x \<or> is_inf y
        then (if is_zero x \<or> is_zero y then NaN else inf_of (signbit x \<noteq> signbit y))
      else if f_val x * f_val y = 0 then zero_of (signbit x \<noteq> signbit y)
      else round64 (f_val x * f_val y))"

definition f_div :: "float64 \<Rightarrow> float64 \<Rightarrow> float64" where
  "f_div x y =
     (if x = NaN \<or> y = NaN then NaN
      else if is_inf x then (if is_inf y then NaN else inf_of (signbit x \<noteq> signbit y))
      else if is_inf y then zero_of (signbit x \<noteq> signbit y)
      else if is_zero y then (if is_zero x then NaN else inf_of (signbit x \<noteq> signbit y))
      else if is_zero x then zero_of (signbit x \<noteq> signbit y)
      else round64 (f_val x / f_val y))"

text \<open>\<open>x < y\<close> on float64: false when either side is NaN; the two zeros are equal.\<close>

fun f_less :: "float64 \<Rightarrow> float64 \<Rightarrow> bool" where
  "f_less NaN _ = False"
| "f_less _ NaN = False"
| "f_less PInf _ = False"
| "f_less _ NInf = False"
| "f_less _ PInf = True"
| "f_less NInf _ = True"
| "f_less x y = (f_val x < f_val y)"

definition trunc :: "rat \<Rightarrow> int" where
  "trunc q = (if 0 \<le> q then \<lfloor>q\<rfloor> else \<lceil>q\<rceil>)"

text \<open>
  \<open>math.Mod(x, y)\<close>: the remainder of x/y with the sign of x, computed exactly;
  NaN when x is infinite or NaN, or y is zero or NaN; x when y is infinite.
\<close>

definition math_Mod :: "float64 \<Rightarrow> float64 \<Rightarrow> float64" where
  "math_Mod x y =
     (if is_zero y \<or> is_inf x \<or> x = NaN \<or> y = NaN then NaN
      else if is_inf y then x
      else let r = f_val x - f_val y * of_int (trunc (f_val x / f_val y))
           in if r = 0 then zero_of (signbit x) else Fin r)"

text \<open>
  The conversion \<open>int(x)\<close> of a float64 discards the fraction.  When the value does
  not fit Go's 64-bit int (NaN, an infinity, a magnitude of 2 powi 63 or more) the
  conversion still succeeds and its result depends on the platform: that result is
  the parameter \<open>unrep\<close>.
\<close>

definition int_of_float64 :: "(float64 \<Rightarrow> int) \<Rightarrow> float64 \<Rightarrow> int" where
  "int_of_float64 unrep x =
     (case x of
        Fin q \<Rightarrow> (let t = trunc q in if - (2 ^ 63) \<le> t \<and> t < 2 ^ 63 then t else unrep x)
      | NegZero \<Rightarrow> 0
      | _ \<Rightarrow> unrep x)"

subsection \<open>Panics, indexing and slicing\<close>

datatype panic =
    IndexOutOfRange int nat
  | SliceBoundsOutOfRange nat nat

text \<open>\<open>xs[i]\<close>: a run-time panic unless \<open>0 \<le> i < len(xs)\<close>.\<close>

definition index_at :: "'a list \<Rightarrow> int \<Rightarrow> panic + 'a" where
  "index_at xs i =
     (if 0 \<le> i \<and> i < int (length xs) then Inr (xs ! nat i)
      else Inl (IndexOutOfRange i (length xs)))"

text \<open>\<open>xs[lo:]\<close>: a run-time panic unless \<open>lo \<le> len(xs)\<close>.\<close>

definition slice_from :: "'a list \<Rightarrow> nat \<Rightarrow> panic + 'a list" where
  "slice_from xs lo =
     (if lo \<le> length xs then Inr (drop lo xs)
      else Inl (SliceBoundsOutOfRange lo (length xs)))"

subsection \<open>Programs that write to standard output\<close>

text \<open>
  A run of a function yields the chunks of text it wrote, one for each call of
  \<open>fmt.Print\<close>, \<open>fmt.Println\<close> or \<open>fmt.Printf\<close>, in order, and then either the
  panic that stopped it or the value it returned.
\<close>

type_synonym 'a prog = "string list \<times> (panic + 'a)"

definition ret :: "'a \<Rightarrow> 'a prog" where
  "ret a = ([], Inr a)"

definition bind :: "'a prog \<Rightarrow> ('a \<Rightarrow> 'b prog) \<Rightarrow> 'b prog" where
  "bind m f =
     (case m of
        (out, Inl p) \<Rightarrow> (out, Inl p)
      | (out, Inr a) \<Rightarrow> (case f a of (out', r) \<Rightarrow> (out @ out', r)))"

definition then_do :: "'a prog \<Rightarrow> 'b prog \<Rightarrow> 'b prog" where
  "then_do m n = bind m (\<lambda>_. n)"

definition lift :: "panic + 'a \<Rightarrow> 'a prog" where
  "lift r = ([], r)"

definition run_if :: "bool \<Rightarrow> unit prog \<Rightarrow> unit prog" where
  "run_if b m = (if b then m else ret ())"

fun do_all :: "unit prog list \<Rightarrow> unit prog" where
  "do_all [] = ret ()"
| "do_all (m # ms) = then_do m (do_all ms)"

definition Print :: "string \<Rightarrow> unit prog" where
  "Print s = ([s], Inr ())"

definition Println :: "string \<Rightarrow> unit prog" where
  "Println s = Print (s @ ''\<newline>'')"

section \<open>The data of package forecast\<close>

text \<open>
  The Go \<open>error\<close> interface: a failure carrying its message; \<open>None\<close> of type
  \<open>error option\<close> is the nil error.
\<close>

datatype error = Error string

record UnitMeasures =
  Degrees :: string
  Speed :: string
  Length :: string
  Precipitation :: string
  LongDate :: string
  Hour :: string

text \<open>
  Modelled from the spec: the record types \<open>Alert\<close>, \<open>Weather\<close>, \<open>Flags\<close>,
  \<open>DataBlock\<close> and \<open>Forecast\<close>, declared in another file of the package, and
  \<open>Geocode\<close>, declared in package geocode.  The records hold the fields that
  print.go reads, with the types it reads them at: epoch seconds are int64
  (the parameter type of the time formatters), measurements are float64 (the
  parameter type of \<open>getBearingDetails\<close>), texts are strings.
\<close>

record Alert =
  Title :: string
  Description :: string
  Time :: "64 word"
  Expires :: "64 word"

record Weather =
  Time :: "64 word"
  Summary :: string
  Icon :: string
  Temperature :: float64
  ApparentTemperature :: float64
  TemperatureMax :: float64
  TemperatureMaxTime :: "64 word"
  TemperatureMin :: float64
  TemperatureMinTime :: "64 word"
  ApparentTemperatureMax :: float64
  ApparentTemperatureMin :: float64
  Humidity :: float64
  PrecipIntensity :: float64
  PrecipType :: string
  PrecipProbability :: float64
  NearestStormDistance :: float64
  NearestStormBearing :: float64
  WindSpeed :: float64
  WindBearing :: float64
  CloudCover :: float64
  Visibility :: float64
  Pressure :: float64

record Flags =
  Units :: string

record DataBlock =
  Data :: "Weather list"

record Forecast =
  Flags :: Flags
  Currently :: Weather
  Daily :: DataBlock
  Alerts :: "Alert list"

record Geocode =
  City :: string
  Region :: string

subsection \<open>What the package takes from elsewhere\<close>

text \<open>
  Modelled from the spec: the glyphs of package icons, an opaque table with one
  string constant for each condition that \<open>getIcon\<close> names.
\<close>

record Icons =
  Clear :: string
  Clearday :: string
  Clearnight :: string
  Clouds :: string
  Cloudy :: string
  Cloudsnight :: string
  Fog :: string
  Haze :: string
  Hazenight :: string
  Partlycloudyday :: string
  Partlycloudynight :: string
  Rain :: string
  Sleet :: string
  Snow :: string
  Thunderstorm :: string
  Tornado :: string
  Wind :: string

text \<open>
  The library functions print.go calls, as parameters:
  \<^item> \<open>Color\<close> is \<open>colorstring.Color\<close>, from a string with colour tags to the string
    the terminal shows;
  \<^item> \<open>Sprint_v\<close> is what the verb \<open>%v\<close> of package fmt prints for a float64;
  \<^item> \<open>Format ns layout\<close> is \<open>time.Unix(0, ns).Format(layout)\<close> in the local time
    zone, \<open>ns\<close> an int64 of nanoseconds;
  \<^item> \<open>unrepresentable\<close> is the platform's result of converting to int a float64
    that does not fit;
  \<^item> \<open>icons\<close> are the glyphs.
\<close>

record env =
  Color :: "string \<Rightarrow> string"
  Sprint_v :: "float64 \<Rightarrow> string"
  Format :: "64 word \<Rightarrow> string \<Rightarrow> string"
  unrepresentable :: "float64 \<Rightarrow> int"
  icons :: Icons

text \<open>
  \<open>strings.Replace(s, old, new, -1)\<close> for a non-empty \<open>old\<close>: every occurrence of
  \<open>old\<close>, found from the left without overlap, becomes \<open>new\<close>.  (Both calls in
  print.go pass a one-byte \<open>old\<close>; for an empty \<open>old\<close> this function returns \<open>s\<close>.)
\<close>

function Replace :: "string \<Rightarrow> string \<Rightarrow> string \<Rightarrow> string" where
  "Replace [] old new = []"
| "Replace (c # cs) old new =
     (if old \<noteq> [] \<and> prefix old (c # cs)
      then new @ Replace (drop (length old) (c # cs)) old new
      else c # Replace cs old new)"
  by pat_completeness auto
termination
  by (relation "measure (\<lambda>(s, old, new). length s)") auto

section \<open>print.go\<close>

subsection \<open>The tables\<close>

definition degree_sign :: string where
  "degree_sign = [CHR 0xC2, CHR 0xB0]"

definition UnitFormats :: "string \<rightharpoonup> UnitMeasures" where
  "UnitFormats = map_of
     [(''us'', \<lparr>Degrees = degree_sign @ ''F'', Speed = ''mph'', Length = ''miles'',
               Precipitation = ''in/hr'', LongDate = ''January 2 at 3:04pm MST'',
               Hour = ''3:04pm MST''\<rparr>),
      (''si'', \<lparr>Degrees = degree_sign @ ''C'', Speed = ''m/s'', Length = ''kilometers'',
               Precipitation = ''mm/h'', LongDate = ''2006-01-02 15:04:05 EET'',
               Hour = ''15:04 EET''\<rparr>),
      (''ca'', \<lparr>Degrees = degree_sign @ ''C'', Speed = ''km/h'', Length = ''kilometers'',
               Precipitation = ''mm/h'', LongDate = ''January 2 at 3:04pm MST'',
               Hour = ''3:04pm MST''\<rparr>),
      (''uk'', \<lparr>Degrees = degree_sign @ ''C'', Speed = ''mph'', Length = ''kilometers'',
               Precipitation = ''mm/h'', LongDate = ''January 2 at 15:04 MST'',
               Hour = ''15:04 MST''\<rparr>),
      (''uk2'', \<lparr>Degrees = degree_sign @ ''C'', Speed = ''mph'', Length = ''miles'',
                Precipitation = ''mm/h'', LongDate = ''January 2 at 15:04 MST'',
                Hour = ''15:04 MST''\<rparr>)]"

text \<open>\<open>m[k]\<close> on a Go map of UnitMeasures: the zero value when the key is absent.\<close>

definition zero_UnitMeasures :: UnitMeasures where
  "zero_UnitMeasures = \<lparr>Degrees = [], Speed = [], Length = [], Precipitation = [],
                         LongDate = [], Hour = []\<rparr>"

definition map_index :: "(string \<rightharpoonup> UnitMeasures) \<Rightarrow> string \<Rightarrow> UnitMeasures" where
  "map_index m k = (case m k of None \<Rightarrow> zero_UnitMeasures | Some v \<Rightarrow> v)"

definition Directions :: "string list" where
  "Directions = [''N'', ''NNE'', ''NE'', ''ENE'', ''E'', ''ESE'', ''SE'', ''SSE'',
                 ''S'', ''SSW'', ''SW'', ''WSW'', ''W'', ''WNW'', ''NW'', ''NNW'']"

subsection \<open>Time formatters\<close>

text \<open>\<open>seconds*int64(time.Second)\<close> is an int64 product: it wraps.\<close>

definition epochFormat :: "env \<Rightarrow> 64 word \<Rightarrow> UnitMeasures \<Rightarrow> string" where
  "epochFormat env seconds unitsFormat =
     Format env (seconds * 1000000000) (LongDate unitsFormat)"

definition epochFormatDate :: "env \<Rightarrow> 64 word \<Rightarrow> string" where
  "epochFormatDate env seconds = Format env (seconds * 1000000000) ''January 2 (Monday)''"

definition epochFormatTime :: "env \<Rightarrow> 64 word \<Rightarrow> UnitMeasures \<Rightarrow> string" where
  "epochFormatTime env seconds unitsFormat =
     Format env (seconds * 1000000000) (Hour unitsFormat)"

subsection \<open>getIcon\<close>

text \<open>The key after the two calls of \<open>strings.Replace\<close>.\<close>

definition sterilize :: "string \<Rightarrow> string" where
  "sterilize iconStr = Replace (Replace iconStr ''-'' [] ) ''_'' []"

text \<open>
  The switch: the colour (\<open>blue\<close> unless a case assigns it) and the glyph (the
  empty string unless a case assigns it) for a sterilized key.
\<close>

definition icon_switch :: "Icons \<Rightarrow> string \<Rightarrow> string \<times> string" where
  "icon_switch ic iconStr =
     (if iconStr = ''clear'' then (''blue'', Clear ic)
      else if iconStr = ''clearday'' then (''yellow'', Clearday ic)
      else if iconStr = ''clearnight'' then (''light_yellow'', Clearnight ic)
      else if iconStr = ''clouds'' then (''blue'', Clouds ic)
      else if iconStr = ''cloudy'' then (''blue'', Cloudy ic)
      else if iconStr = ''cloudsnight'' then (''light_yellow'', Cloudsnight ic)
      else if iconStr = ''fog'' then (''blue'', Fog ic)
      else if iconStr = ''haze'' then (''blue'', Haze ic)
      else if iconStr = ''hazenight'' then (''light_yellow'', Hazenight ic)
      else if iconStr = ''partlycloudyday'' then (''yellow'', Partlycloudyday ic)
      else if iconStr = ''partlycloudynight'' then (''light_yellow'', Partlycloudynight ic)
      else if iconStr = ''rain'' then (''blue'', Rain ic)
      else if iconStr = ''sleet'' then (''blue'', Sleet ic)
      else if iconStr = ''snow'' then (''white'', Snow ic)
      else if iconStr = ''thunderstorm'' then (''black'', Thunderstorm ic)
      else if iconStr = ''tornado'' then (''black'', Tornado ic)
      else if iconStr = ''wind'' then (''black'', Wind ic)
      else (''blue'', []))"

text \<open>The case labels of the switch.\<close>

definition icon_keys :: "string list" where
  "icon_keys = [''clear'', ''clearday'', ''clearnight'', ''clouds'', ''cloudy'',
     ''cloudsnight'', ''fog'', ''haze'', ''hazenight'', ''partlycloudyday'',
     ''partlycloudynight'', ''rain'', ''sleet'', ''snow'', ''thunderstorm'', ''tornado'',
     ''wind'']"

definition getIcon :: "env \<Rightarrow> string \<Rightarrow> string \<times> error option" where
  "getIcon env iconStr =
     (let (color, icon) = icon_switch (icons env) (sterilize iconStr)
      in (Color env (''['' @ color @ '']'' @ icon), None))"

subsection \<open>getBearingDetails\<close>

definition bearing_index :: "env \<Rightarrow> float64 \<Rightarrow> int" where
  "bearing_index env degrees =
     int_of_float64 (unrepresentable env)
       (math_Mod (f_div (f_add degrees (Fin (45 / 4))) (Fin (45 / 2))) (Fin 16))"

definition getBearingDetails :: "env \<Rightarrow> float64 \<Rightarrow> panic + string" where
  "getBearingDetails env degrees = index_at Directions (bearing_index env degrees)"

subsection \<open>printCommon\<close>

text \<open>
  The arguments of a print call are evaluated before it writes: when
  \<open>getBearingDetails\<close> panics, the line that was to hold the bearing is not written.
\<close>

definition printCommon :: "env \<Rightarrow> Weather \<Rightarrow> UnitMeasures \<Rightarrow> error option prog" where
  "printCommon env weather unitsFormat =
     then_do (do_all
       [run_if (f_less (Fin 0) (Humidity weather))
          (let humidity = Color env (''[white]'' @
                 Sprint_v env (f_mul (Humidity weather) (Fin 100)) @ ''%'')
           in if f_less (round64 (1 / 5)) (Humidity weather)
              then Print (''  Ick! The humidity is '' @ humidity @ ''\<newline>'')
              else Print (''  The humidity is '' @ humidity @ ''\<newline>'')),
        run_if (f_less (Fin 0) (PrecipIntensity weather))
          (let precInt = Color env (''[white]'' @ Sprint_v env (PrecipIntensity weather) @
                 '' '' @ Precipitation unitsFormat)
           in Print (''  The precipitation intensity of '' @
                 Color env (''[white]'' @ PrecipType weather) @ '' is '' @ precInt @
                 ''\<newline>'')),
        run_if (f_less (Fin 0) (PrecipProbability weather))
          (let prec = Color env (''[white]'' @
                 Sprint_v env (f_mul (PrecipProbability weather) (Fin 100)) @ ''%'')
           in Print (''  The precipitation probability is '' @ prec @ ''\<newline>'')),
        run_if (f_less (Fin 0) (NearestStormDistance weather))
          (bind (lift (getBearingDetails env (NearestStormBearing weather)))
             (\<lambda>bearing.
                let dist = Color env (''[white]'' @
                      Sprint_v env (NearestStormDistance weather) @ '' '' @
                      Length unitsFormat @ '' '' @ bearing)
                in Print (''  The nearest storm is '' @ dist @ '' away\<newline>''))),
        run_if (f_less (Fin 0) (WindSpeed weather))
          (bind (lift (getBearingDetails env (WindBearing weather)))
             (\<lambda>bearing.
                let wind = Color env (''[white]'' @ Sprint_v env (WindSpeed weather) @
                      '' '' @ Speed unitsFormat @ '' '' @ bearing)
                in Print (''  The wind speed is '' @ wind @ ''\<newline>''))),
        run_if (f_less (Fin 0) (CloudCover weather))
          (let cloudCover = Color env (''[white]'' @
                 Sprint_v env (f_mul (CloudCover weather) (Fin 100)) @ ''%'')
           in Print (''  The cloud coverage is '' @ cloudCover @ ''\<newline>'')),
        run_if (f_less (Visibility weather) (Fin 10))
          (let visibility = Color env (''[white]'' @ Sprint_v env (Visibility weather) @
                 '' '' @ Length unitsFormat)
           in Print (''  The visibility is '' @ visibility @ ''\<newline>'')),
        run_if (f_less (Fin 0) (Pressure weather))
          (let pressure = Color env (''[white]'' @ Sprint_v env (Pressure weather) @
                 '' '' @ ''mbar'')
           in Print (''  The pressure is '' @ pressure @ ''\<newline>\<newline>''))])
       (ret None)"

subsection \<open>PrintCurrent\<close>

definition tabs :: string where
  "tabs = [CHR 0x09, CHR 0x09, CHR 0x09]"

text \<open>The body of the loop over \<open>forecast.Alerts\<close>.\<close>

definition print_alert :: "env \<Rightarrow> UnitMeasures \<Rightarrow> Alert \<Rightarrow> unit prog" where
  "print_alert env unitsFormat alert =
     do_all
       [run_if (Title alert \<noteq> []) (Println (Color env (''[red]'' @ Title alert))),
        run_if (Description alert \<noteq> []) (Print (Color env (''[red]'' @ Description alert))),
        Println (tabs @ Color env (''[red]Created: '' @
                   epochFormat env (Alert.Time alert) unitsFormat)),
        Println (tabs @ Color env (''[red]Expires: '' @
                   epochFormat env (Expires alert) unitsFormat) @ ''\<newline>'')]"

text \<open>The two formatted temperatures and the statement that compares them.\<close>

definition current_temp :: "env \<Rightarrow> Forecast \<Rightarrow> UnitMeasures \<Rightarrow> string" where
  "current_temp env forecast unitsFormat =
     Color env (''[magenta]'' @ Sprint_v env (Temperature (Currently forecast)) @
                Degrees unitsFormat)"

definition current_feelslike :: "env \<Rightarrow> Forecast \<Rightarrow> UnitMeasures \<Rightarrow> string" where
  "current_feelslike env forecast unitsFormat =
     Color env (''[magenta]'' @ Sprint_v env (ApparentTemperature (Currently forecast)) @
                Degrees unitsFormat)"

definition print_temperature :: "string \<Rightarrow> string \<Rightarrow> unit prog" where
  "print_temperature temp feelslike =
     (if temp = feelslike
      then Print (''The temperature is '' @ temp @ ''\<newline>\<newline>'')
      else Print (''The temperature is '' @ temp @ '', but it feels like '' @ feelslike @
                  ''\<newline>\<newline>''))"

definition PrintCurrent ::
  "env \<Rightarrow> Forecast \<Rightarrow> Geocode \<Rightarrow> bool \<Rightarrow> bool \<Rightarrow> error option prog" where
  "PrintCurrent env forecast geolocation ignoreAlerts hideIcon =
     (let unitsFormat = map_index UnitFormats (Units (Flags forecast));
          (icon, err) = getIcon env (Icon (Currently forecast))
      in if \<not> hideIcon \<and> err \<noteq> None then ret err
         else
           then_do (do_all
             [run_if (\<not> hideIcon) (Println icon),
              (let location = Color env (''[green]'' @ City geolocation @ '' in '' @
                     Region geolocation)
               in Print (''\<newline>Current weather is '' @
                     Color env (''[cyan]'' @ Summary (Currently forecast)) @ '' in '' @
                     location @ '' for '' @
                     Color env (''[cyan]'' @
                       epochFormat env (Time (Currently forecast)) unitsFormat) @
                     ''\<newline>'')),
              print_temperature (current_temp env forecast unitsFormat)
                (current_feelslike env forecast unitsFormat),
              run_if (\<not> ignoreAlerts)
                (do_all (map (print_alert env unitsFormat) (Alerts forecast)))])
             (printCommon env (Currently forecast) unitsFormat))"

subsection \<open>PrintDaily\<close>

text \<open>
  The body of the loop after its break test: the block of one day.  The error
  that \<open>printCommon\<close> returns is dropped; a panic is not.
\<close>

definition print_day :: "env \<Rightarrow> UnitMeasures \<Rightarrow> Weather \<Rightarrow> unit prog" where
  "print_day env unitsFormat daily =
     (let tempMax = Color env (''[blue]'' @ Sprint_v env (TemperatureMax daily) @
                      Degrees unitsFormat);
          tempMin = Color env (''[blue]'' @ Sprint_v env (TemperatureMin daily) @
                      Degrees unitsFormat);
          feelsLikeMax = Color env (''[cyan]'' @ Sprint_v env (ApparentTemperatureMax daily) @
                      Degrees unitsFormat);
          feelsLikeMin = Color env (''[cyan]'' @ Sprint_v env (ApparentTemperatureMin daily) @
                      Degrees unitsFormat)
      in do_all
           [Println (Color env (''[magenta]'' @ epochFormatDate env (Time daily))),
            Print (''The temperature high is '' @ tempMax @ '', feels like '' @
                   feelsLikeMax @ '' around '' @
                   epochFormatTime env (TemperatureMaxTime daily) unitsFormat @
                   '',\<newline>''),
            Print (''and low is '' @ tempMin @ '', feels like '' @ feelsLikeMin @
                   '' around '' @
                   epochFormatTime env (TemperatureMinTime daily) unitsFormat @
                   ''\<newline>\<newline>''),
            then_do (printCommon env daily unitsFormat) (ret ())])"

text \<open>
  \<open>for index, daily := range s\<close> with the break at \<open>index == days\<close>; \<open>index\<close> counts
  from 0 and \<open>days\<close> is a Go int.
\<close>

fun daily_loop :: "env \<Rightarrow> UnitMeasures \<Rightarrow> int \<Rightarrow> nat \<Rightarrow> Weather list \<Rightarrow> unit prog" where
  "daily_loop env unitsFormat days index [] = ret ()"
| "daily_loop env unitsFormat days index (daily # rest) =
     (if int index = days then ret ()
      else then_do (print_day env unitsFormat daily)
             (daily_loop env unitsFormat days (Suc index) rest))"

definition PrintDaily :: "env \<Rightarrow> Forecast \<Rightarrow> int \<Rightarrow> error option prog" where
  "PrintDaily env forecast days =
     (let unitsFormat = map_index UnitFormats (Units (Flags forecast))
      in bind (lift (slice_from (Data (Daily forecast)) 1))
           (\<lambda>s. then_do (daily_loop env unitsFormat days 0 s) (ret None)))"

section \<open>Sample data\<close>

text \<open>
  A concrete environment and concrete forecasts, for evaluating the printers.
  The sample colour function leaves its argument as it is, the sample time
  formatter returns the layout, the sample glyphs are names in parentheses, the
  sample conversion of an unrepresentable float64 is the least int64, and
  \<open>show_float\<close> prints the integral part of a finite value in decimal (the sample
  forecasts hold only whole numbers).
\<close>

function show_nat :: "nat \<Rightarrow> string" where
  "show_nat n = (if n < 10 then [''0123456789'' ! n]
                 else show_nat (n div 10) @ [''0123456789'' ! (n mod 10)])"
  by pat_completeness auto
termination
  by (relation "measure (\<lambda>n. n)") auto

definition show_float :: "float64 \<Rightarrow> string" where
  "show_float x =
     (case x of
        Fin q \<Rightarrow> (if q < 0 then ''-'' else []) @ show_nat (nat \<lfloor>\<bar>q\<bar>\<rfloor>)
      | NegZero \<Rightarrow> ''-0''
      | PInf \<Rightarrow> ''+Inf''
      | NInf \<Rightarrow> ''-Inf''
      | NaN \<Rightarrow> ''NaN'')"

definition sample_icons :: Icons where
  "sample_icons = \<lparr>Clear = ''(clear)'', Clearday = ''(clearday)'',
     Clearnight = ''(clearnight)'', Clouds = ''(clouds)'', Cloudy = ''(cloudy)'',
     Cloudsnight = ''(cloudsnight)'', Fog = ''(fog)'', Haze = ''(haze)'',
     Hazenight = ''(hazenight)'', Partlycloudyday = ''(partlycloudyday)'',
     Partlycloudynight = ''(partlycloudynight)'', Rain = ''(rain)'', Sleet = ''(sleet)'',
     Snow = ''(snow)'', Thunderstorm = ''(thunderstorm)'', Tornado = ''(tornado)'',
     Wind = ''(wind)''\<rparr>"

definition sample_env :: env where
  "sample_env = \<lparr>Color = (\<lambda>s. s), Sprint_v = show_float,
     Format = (\<lambda>ns layout. layout), unrepresentable = (\<lambda>x. - (2 ^ 63)),
     icons = sample_icons\<rparr>"

text \<open>A sample with nothing for \<open>printCommon\<close> to report.\<close>

definition calm :: Weather where
  "calm = \<lparr>Time = 0, Summary = ''Clear'', Icon = ''clear-day'',
     Temperature = Fin 72, ApparentTemperature = Fin 72,
     TemperatureMax = Fin 75, TemperatureMaxTime = 0,
     TemperatureMin = Fin 60, TemperatureMinTime = 0,
     ApparentTemperatureMax = Fin 75, ApparentTemperatureMin = Fin 60,
     Humidity = Fin 0, PrecipIntensity = Fin 0, PrecipType = [],
     PrecipProbability = Fin 0, NearestStormDistance = Fin 0,
     NearestStormBearing = Fin 0, WindSpeed = Fin 0, WindBearing = Fin 0,
     CloudCover = Fin 0, Visibility = Fin 10, Pressure = Fin 0\<rparr>"


text \<open>Days that differ from \<open>calm\<close> in one temperature.\<close>

definition warm :: Weather where
  "warm = calm\<lparr>TemperatureMax := Fin 80\<rparr>"

definition hot :: Weather where
  "hot = calm\<lparr>TemperatureMax := Fin 90\<rparr>"

definition chilly :: Weather where
  "chilly = calm\<lparr>ApparentTemperature := Fin 70\<rparr>"

definition sample_geo :: Geocode where
  "sample_geo = \<lparr>City = ''Oulu'', Region = ''FI''\<rparr>"

definition empty_alert :: Alert where
  "empty_alert = \<lparr>Title = [], Description = [], Alert.Time = 0, Expires = 0\<rparr>"

definition title_alert :: Alert where
  "title_alert = \<lparr>Title = ''Flood'', Description = [], Alert.Time = 0, Expires = 0\<rparr>"

definition fc_current :: "Weather \<Rightarrow> Alert list \<Rightarrow> Forecast" where
  "fc_current w as = \<lparr>Flags = \<lparr>Units = ''us''\<rparr>, Currently = w, Daily = \<lparr>Data = []\<rparr>,
     Alerts = as\<rparr>"

definition fc_daily :: "Weather list \<Rightarrow> Forecast" where
  "fc_daily ds = \<lparr>Flags = \<lparr>Units = ''us''\<rparr>, Currently = calm, Daily = \<lparr>Data = ds\<rparr>,
     Alerts = []\<rparr>"

section \<open>Auxiliary facts\<close>

subsection \<open>Rounding to float64\<close>

lemma flog2_le: assumes "0 < a" shows "2 powi (flog2 a) \<le> a"
proof -
  obtain n d where nd: "quotient_of a = (n, d)" by (cases "quotient_of a")
  have dpos: "0 < d" using quotient_of_denom_pos[OF nd] .
  have a_eq: "a = of_int n / of_int d" using quotient_of_div[OF nd] .
  have npos: "0 < n" using assms dpos a_eq by (simp add: zero_less_divide_iff)
  define k where "k = bitlen n - bitlen d"
  show ?thesis
  proof (cases "2 powi k \<le> a")
    case True
    then show ?thesis by (simp add: flog2_def nd k_def)
  next
    case False
    have bn: "2 ^ nat (bitlen n - 1) \<le> n" using bitlen_bounds[OF npos] by simp
    have bd: "d < 2 ^ nat (bitlen d)" using bitlen_bounds[OF dpos] by simp
    have bnpos: "0 < bitlen n" using npos bitlen_def
      by (metis bitlen_nonneg bitlen_eq_zero_iff less_le not_le)
    have bdpos: "0 \<le> bitlen d" by (rule bitlen_nonneg)
    have n': "(2::rat) powi (bitlen n - 1) \<le> of_int n"
    proof -
      have "(2::rat) powi (bitlen n - 1) = 2 ^ nat (bitlen n - 1)"
        using bnpos by (simp add: power_int_def)
      also have "\<dots> = of_int (2 ^ nat (bitlen n - 1))" by simp
      also have "\<dots> \<le> of_int n" using bn by (simp only: of_int_le_iff)
      finally show ?thesis .
    qed
    have d': "of_int d < (2::rat) powi (bitlen d)"
    proof -
      have "(of_int d :: rat) < of_int (2 ^ nat (bitlen d))" using bd by (simp only: of_int_less_iff)
      also have "\<dots> = 2 powi (bitlen d)" using bdpos by (simp add: power_int_def)
      finally show ?thesis .
    qed
    have e: "k - 1 = (bitlen n - 1) - bitlen d" by (simp add: k_def)
    have "(2::rat) powi (k - 1) = 2 powi (bitlen n - 1) / 2 powi (bitlen d)"
      unfolding e by (rule power_int_diff) simp
    also have "\<dots> \<le> of_int n / 2 powi (bitlen d)"
      using n' by (simp add: divide_right_mono)
    also have "\<dots> \<le> of_int n / of_int d"
      using d' dpos npos by (simp add: frac_le)
    finally have "2 powi (k - 1) \<le> a" using a_eq by simp
    with False show ?thesis by (simp add: flog2_def nd k_def)
  qed
qed

lemma round_half_even_le: "of_int (round_half_even x) \<le> x + 1/2"
  unfolding round_half_even_def Let_def
  by (auto simp: ) linarith+

lemma round_half_even_nonneg: "0 \<le> x \<Longrightarrow> 0 \<le> round_half_even x"
  unfolding round_half_even_def Let_def
  by (auto simp: ) 

lemma round64_pos_fin:
  assumes "0 < q" and "q < 2 powi 1024 - 2 powi 970"
  shows "\<exists>r. round64 q = Fin r \<and> 0 \<le> r \<and> r < 2 powi 1024"
proof -
  define e where "e = max (flog2 q) (- 1022)"
  define ulp :: rat where "ulp = 2 powi (e - 52)"
  define r where "r = of_int (round_half_even (q / ulp)) * ulp"
  have q1024: "q < 2 powi 1024"
  proof -
    have "(0::rat) < 2 powi 970" by simp
    with assms(2) show ?thesis by linarith
  qed
  have "(2::rat) powi (flog2 q) < 2 powi 1024"
    using flog2_le[OF assms(1)] q1024 by linarith
  then have "flog2 q < 1024"
    by (rule power_int_le_imp_less_exp[rotated]) simp_all
  then have e_le: "e - 52 \<le> 971" by (simp add: e_def)
  have ulp_pos: "0 < ulp" by (simp add: ulp_def)
  have ulp_le: "ulp \<le> 2 powi 971"
    unfolding ulp_def using e_le by (intro power_int_increasing) simp_all
  have half: "(2::rat) powi 971 / 2 = 2 powi 970"
    using power_int_diff[of "2::rat" 971 1] by simp
  have "r \<le> (q / ulp + 1 / 2) * ulp"
    unfolding r_def using round_half_even_le[of "q / ulp"] ulp_pos
    by (intro mult_right_mono) simp_all
  also have "\<dots> = q + ulp / 2" using ulp_pos by (simp add: field_simps)
  also have "\<dots> \<le> q + 2 powi 970" using ulp_le half by linarith
  also have "\<dots> < 2 powi 1024" using assms(2) by linarith
  finally have r_lt: "r < 2 powi 1024" .
  have "0 \<le> q / ulp" using assms(1) ulp_pos by simp
  then have r_ge: "0 \<le> r"
    unfolding r_def using round_half_even_nonneg[of "q / ulp"] ulp_pos by simp
  define m where "m = round_half_even (q / ulp)"
  have rm: "r = of_int m * ulp" by (simp add: r_def m_def)
  have e_lt: "\<not> 1024 \<le> e" using e_le by simp
  have m_lt: "\<not> (e = 1023 \<and> 2 ^ 53 \<le> m)"
  proof
    assume a: "e = 1023 \<and> 2 ^ 53 \<le> m"
    then have u: "ulp = 2 powi 971" by (simp add: ulp_def)
    have "(2::rat) powi 1024 = 2 powi 53 * 2 powi 971"
      using power_int_add[of "2::rat" 53 971] by simp
    also have "\<dots> = of_int (2 ^ 53) * ulp" by (simp add: u power_int_def)
    also have "\<dots> \<le> of_int m * ulp"
    proof (rule mult_right_mono)
      from a have "(2::int) ^ 53 \<le> m" by simp
      then show "(of_int (2 ^ 53) :: rat) \<le> of_int m" by (simp only: of_int_le_iff)
      show "0 \<le> ulp" using ulp_pos by simp
    qed
    finally show False using r_lt rm by simp
  qed
  have "round64 q = (if m = 0 then Fin 0 else Fin r)"
    using assms(1) e_lt m_lt
    by (auto simp: round64_def Let_def zero_of_def e_def[symmetric] ulp_def[symmetric]
        m_def[symmetric] rm)
  with r_lt r_ge show ?thesis by auto
qed

lemma pow2_facts:
  "(2::rat) powi 971 = 2 * 2 powi 970" "(16::rat) \<le> 2 powi 970"
  "(2::rat) powi 1024 = 2 * 2 powi 1023" "(2::rat) powi 970 \<le> 2 powi 1023"
proof -
  show "(2::rat) powi 971 = 2 * 2 powi 970"
    using power_int_add[of "2::rat" 1 970] by simp
  have "(2::rat) powi 4 \<le> 2 powi 970" by (intro power_int_increasing) simp_all
  then show "(16::rat) \<le> 2 powi 970" by (simp add: power_int_def)
  show "(2::rat) powi 1024 = 2 * 2 powi 1023"
    using power_int_add[of "2::rat" 1 1023] by simp
  show "(2::rat) powi 970 \<le> 2 powi 1023" by (intro power_int_increasing) simp_all
qed

lemma mod16_range:
  assumes "0 \<le> (r::rat)"
  shows "0 \<le> r - 16 * of_int (trunc (r / 16))" "r - 16 * of_int (trunc (r / 16)) < 16"
proof -
  have t: "trunc (r / 16) = \<lfloor>r / 16\<rfloor>" using assms by (simp add: trunc_def)
  have "of_int \<lfloor>r / 16\<rfloor> \<le> r / 16" by (rule of_int_floor_le)
  then show "0 \<le> r - 16 * of_int (trunc (r / 16))" unfolding t by linarith
  have "r / 16 < of_int \<lfloor>r / 16\<rfloor> + 1" by linarith
  then show "r - 16 * of_int (trunc (r / 16)) < 16" unfolding t by linarith
qed

lemma bearing_index_range:
  assumes d: "d = Fin q \<or> (d = NegZero \<and> q = 0)"
    and q0: "0 \<le> q" and qmax: "q \<le> 2 powi 1024 - 2 powi 971"
  shows "0 \<le> bearing_index env d \<and> bearing_index env d < 16"
proof -
  have fv: "f_val d = q" using d by auto
  have "0 < q + 45 / 4" using q0 by simp
  moreover have "q + 45 / 4 < 2 powi 1024 - 2 powi 970"
    using qmax pow2_facts(1,2) by linarith
  ultimately obtain r1 where r1: "round64 (q + 45 / 4) = Fin r1" "0 \<le> r1" "r1 < 2 powi 1024"
    using round64_pos_fin by blast
  have s1: "f_add d (Fin (45 / 4)) = Fin r1"
    using d q0 r1(1) by (auto simp: f_add_def is_inf_def)
  have "\<exists>r2. f_div (Fin r1) (Fin (45 / 2)) = Fin r2 \<and> 0 \<le> r2"
  proof (cases "r1 = 0")
    case True
    then show ?thesis by (simp add: f_div_def is_inf_def is_zero_def zero_of_def)
  next
    case False
    then have "0 < r1 / (45 / 2)" using r1(2) by simp
    moreover have "r1 / (45 / 2) \<le> r1 / 2" using r1(2) by simp
    then have "r1 / (45 / 2) < 2 powi 1024 - 2 powi 970"
      using r1(2,3) pow2_facts(3,4) by linarith
    ultimately obtain r2 where "round64 (r1 / (45 / 2)) = Fin r2" "0 \<le> r2"
      using round64_pos_fin by blast
    with False show ?thesis by (simp add: f_div_def is_inf_def is_zero_def)
  qed
  then obtain r2 where s2: "f_div (Fin r1) (Fin (45 / 2)) = Fin r2" and r2: "0 \<le> r2" by blast
  define r3 where "r3 = r2 - 16 * of_int (trunc (r2 / 16))"
  have r3: "0 \<le> r3" "r3 < 16" unfolding r3_def using mod16_range[OF r2] by simp_all
  have s3: "math_Mod (Fin r2) (Fin 16) = Fin r3"
    using r2 by (simp add: math_Mod_def is_inf_def is_zero_def zero_of_def Let_def r3_def)
  have t0: "0 \<le> trunc r3" using r3(1) by (simp add: trunc_def)
  have t16: "trunc r3 < 16" using r3 by (simp add: trunc_def floor_less_iff)
  have "bearing_index env d = trunc r3"
    using t0 t16 by (simp add: bearing_index_def s1 s2 s3 int_of_float64_def Let_def)
  with t0 t16 show ?thesis by simp
qed

lemma max_float64_ge: "1024 \<le> max_float64"
proof -
  have "(2::rat) powi 10 \<le> 2 powi 1023" by (intro power_int_increasing) simp_all
  then have a: "(1024::rat) \<le> 2 powi 1023" by (simp add: power_int_def)
  have b: "(2::rat) powi 971 \<le> 2 powi 1023" by (intro power_int_increasing) simp_all
  show ?thesis unfolding max_float64_def using a b pow2_facts(3) by linarith
qed

lemma bearing_index_ok:
  assumes "d = NegZero \<or> (\<exists>q. d = Fin q \<and> 0 \<le> q \<and> q \<le> max_float64)"
  shows "0 \<le> bearing_index env d \<and> bearing_index env d < 16"
  using assms
proof (elim disjE exE conjE)
  assume "d = NegZero"
  then show ?thesis
    using bearing_index_range[of d 0 env] max_float64_ge by (simp add: max_float64_def)
next
  fix q assume "d = Fin q" "0 \<le> q" "q \<le> max_float64"
  then show ?thesis
    using bearing_index_range[of d q env] by (simp add: max_float64_def)
qed

lemma index_at_mem:
  "0 \<le> i \<Longrightarrow> i < int (length xs) \<Longrightarrow> \<exists>l\<in>set xs. index_at xs i = Inr l"
  by (simp add: index_at_def)

lemma length_Directions: "length Directions = 16"
  by (simp add: Directions_def)

lemma bearing_label:
  assumes "d = NegZero \<or> (\<exists>q. d = Fin q \<and> 0 \<le> q \<and> q \<le> max_float64)"
  shows "\<exists>l\<in>set Directions. getBearingDetails env d = Inr l"
  using bearing_index_ok[OF assms, of env] unfolding getBearingDetails_def
  by (intro index_at_mem) (simp_all add: length_Directions)

subsection \<open>Sequencing\<close>

lemma then_do_Inr: "snd m = Inr a \<Longrightarrow> then_do m n = (fst m @ fst n, snd n)"
  by (cases m) (simp add: then_do_def bind_def split: prod.splits)

lemma then_do_Inl: "snd m = Inl p \<Longrightarrow> then_do m n = (fst m, Inl p)"
  by (cases m) (simp add: then_do_def bind_def)

lemma then_do_pair_Inr: "then_do (out, Inr a) n = (out @ fst n, snd n)"
  by (simp add: then_do_Inr[of _ a])

lemma then_do_pair_Inl: "then_do (out, Inl p) n = (out, Inl p)"
  by (simp add: then_do_Inl[of _ p])

lemmas prog_simps = then_do_pair_Inr then_do_pair_Inl Print_def Println_def ret_def run_if_def

lemma print_alert_eq:
  "print_alert env u a =
     ((if Title a \<noteq> [] then [Color env (''[red]'' @ Title a) @ ''\<newline>''] else []) @
      (if Description a \<noteq> [] then [Color env (''[red]'' @ Description a)] else []) @
      [tabs @ Color env (''[red]Created: '' @ epochFormat env (Alert.Time a) u) @ ''\<newline>'',
       tabs @ Color env (''[red]Expires: '' @ epochFormat env (Expires a) u) @
         ''\<newline>\<newline>''],
      Inr ())"
  by (simp add: print_alert_def prog_simps)

lemma do_all_alerts:
  "do_all (map (print_alert env u) as) =
     (concat (map (\<lambda>a. fst (print_alert env u a)) as), Inr ())"
proof (induction as)
  case Nil
  show ?case by (simp add: ret_def)
next
  case (Cons a as)
  have "snd (print_alert env u a) = Inr ()" by (simp add: print_alert_eq)
  then show ?case using Cons by (simp add: then_do_Inr)
qed

lemma PrintCurrent_eq:
  "PrintCurrent env f g ia hi =
     ((if hi then [] else [fst (getIcon env (Icon (Currently f))) @ ''\<newline>'']) @
      [''\<newline>Current weather is '' @ Color env (''[cyan]'' @ Summary (Currently f)) @
         '' in '' @ Color env (''[green]'' @ City g @ '' in '' @ Region g) @ '' for '' @
         Color env (''[cyan]'' @ epochFormat env (Time (Currently f))
           (map_index UnitFormats (Units (Flags f)))) @ ''\<newline>''] @
      fst (print_temperature
         (current_temp env f (map_index UnitFormats (Units (Flags f))))
         (current_feelslike env f (map_index UnitFormats (Units (Flags f))))) @
      (if ia then [] else concat (map (\<lambda>a. fst (print_alert env
           (map_index UnitFormats (Units (Flags f))) a)) (Alerts f))) @
      fst (printCommon env (Currently f) (map_index UnitFormats (Units (Flags f)))),
      snd (printCommon env (Currently f) (map_index UnitFormats (Units (Flags f)))))"
proof -
  have t: "snd (print_temperature a b) = Inr ()" for a b
    by (simp add: print_temperature_def Print_def)
  show ?thesis
    by (simp add: PrintCurrent_def getIcon_def Let_def split_beta do_all_alerts
      then_do_Inr[OF t] prog_simps)
qed

lemma snd_then_do: "snd (then_do m n) = (case snd m of Inl p \<Rightarrow> Inl p | Inr a \<Rightarrow> snd n)"
  by (cases m; cases "snd m") (simp_all add: then_do_pair_Inr then_do_pair_Inl)

lemma snd_bind_lift:
  "snd (bind (lift r) k) = (case r of Inl p \<Rightarrow> Inl p | Inr a \<Rightarrow> snd (k a))"
  by (cases r) (simp_all add: bind_def lift_def split: prod.splits)

lemma getBearingDetails_panic:
  "getBearingDetails env d = Inl p \<Longrightarrow> p = IndexOutOfRange (bearing_index env d) 16"
  by (auto simp: getBearingDetails_def index_at_def Directions_def split: if_splits)

lemma do_all_no_slice:
  "(\<And>m. m \<in> set ms \<Longrightarrow> snd m \<noteq> Inl (SliceBoundsOutOfRange lo n)) \<Longrightarrow>
   snd (do_all ms) \<noteq> Inl (SliceBoundsOutOfRange lo n)"
  by (induction ms) (auto simp: ret_def snd_then_do split: sum.splits)

lemma bearing_line_no_slice:
  "snd (bind (lift (getBearingDetails env d)) (\<lambda>b. Print (k b))) \<noteq>
     Inl (SliceBoundsOutOfRange lo n)"
  by (auto simp: snd_bind_lift Print_def split: sum.splits dest: getBearingDetails_panic)

lemma do_all_ret_no_slice:
  "list_all (\<lambda>m. snd m \<noteq> Inl (SliceBoundsOutOfRange lo n)) ms \<Longrightarrow>
   snd (then_do (do_all ms) (ret a)) \<noteq> Inl (SliceBoundsOutOfRange lo n)"
  using do_all_no_slice[of ms lo n]
  by (auto simp: snd_then_do ret_def list_all_iff split: sum.splits)

lemma run_if_no_slice:
  "snd m \<noteq> Inl (SliceBoundsOutOfRange lo n) \<Longrightarrow>
   snd (run_if b m) \<noteq> Inl (SliceBoundsOutOfRange lo n)"
  by (simp add: run_if_def ret_def)

lemma Print_no_slice: "snd (Print s) \<noteq> Inl (SliceBoundsOutOfRange lo n)"
  by (simp add: Print_def)

lemma printCommon_no_slice:
  "snd (printCommon env w u) \<noteq> Inl (SliceBoundsOutOfRange lo n)"
  unfolding printCommon_def
  by (rule do_all_ret_no_slice)
     (simp add: Let_def run_if_no_slice Print_no_slice bearing_line_no_slice)

lemma print_day_no_slice:
  "snd (print_day env u d) \<noteq> Inl (SliceBoundsOutOfRange lo n)"
proof -
  have "snd (then_do (printCommon env d u) (ret ())) \<noteq> Inl (SliceBoundsOutOfRange lo n)"
    using printCommon_no_slice[of env d u lo n]
    by (auto simp: snd_then_do ret_def split: sum.splits)
  then show ?thesis
    unfolding print_day_def Let_def
    by (intro do_all_no_slice) (auto simp: Println_def Print_def)
qed

lemma daily_loop_eq:
  "daily_loop env u days index s =
     do_all (map (print_day env u)
       (if days < int index then s else take (nat (days - int index)) s))"
proof (induction s arbitrary: index)
  case Nil
  show ?case by simp
next
  case (Cons d s)
  show ?case
  proof (cases "int index = days")
    case True
    then show ?thesis by simp
  next
    case False
    have "take (nat (days - int index)) (d # s) = d # take (nat (days - int (Suc index))) s"
      if "int index < days"
    proof -
      from that have "nat (days - int index) = Suc (nat (days - int (Suc index)))" by simp
      then show ?thesis by (simp only: take_Suc_Cons)
    qed
    with False show ?thesis using Cons[of "Suc index"] by auto
  qed
qed

lemma PrintDaily_eq:
  "PrintDaily env f days =
     (if Data (Daily f) = [] then ([], Inl (SliceBoundsOutOfRange 1 0))
      else then_do (do_all (map (print_day env (map_index UnitFormats (Units (Flags f))))
             (if days < 0 then tl (Data (Daily f)) else take (nat days) (tl (Data (Daily f))))))
             (ret None))"
  by (cases "Data (Daily f)")
     (simp_all add: PrintDaily_def Let_def slice_from_def lift_def bind_def daily_loop_eq
        drop_Suc)

subsection \<open>Keys and errors\<close>

lemma Replace_single: "Replace s [c] [] = filter (\<lambda>x. x \<noteq> c) s"
  by (induction s) auto

lemma sterilize_filter:
  "sterilize s = filter (\<lambda>x. x \<noteq> CHR ''-'' \<and> x \<noteq> CHR ''_'') s"
  by (simp add: sterilize_def Replace_single conj_commute)

lemma printCommon_nil: "snd (printCommon env w u) \<noteq> Inr (Some e)"
  by (simp add: printCommon_def snd_then_do ret_def split: sum.splits)

subsection \<open>The printers\<close>

lemma printCommon_quiet:
  assumes "Humidity w = Fin 0" "PrecipIntensity w = Fin 0" "PrecipProbability w = Fin 0"
    "NearestStormDistance w = Fin 0" "WindSpeed w = Fin 0" "CloudCover w = Fin 0"
    "Visibility w = Fin 10" "Pressure w = Fin 0"
  shows "printCommon env w u = ([], Inr None)"
  using assms by (simp add: printCommon_def prog_simps)

lemma print_temperature_eq:
  "print_temperature t f =
     ([if t = f then ''The temperature is '' @ t @ ''\<newline>\<newline>''
       else ''The temperature is '' @ t @ '', but it feels like '' @ f @
            ''\<newline>\<newline>''], Inr ())"
  by (simp add: print_temperature_def Print_def)



lemma days_no_slice:
  "snd (then_do (do_all (map (print_day env u) ds)) (ret a)) \<noteq>
     Inl (SliceBoundsOutOfRange lo n)"
  by (rule do_all_ret_no_slice) (simp add: list_all_iff print_day_no_slice)

lemma print_day_quiet:
  assumes "Humidity w = Fin 0" "PrecipIntensity w = Fin 0" "PrecipProbability w = Fin 0"
    "NearestStormDistance w = Fin 0" "WindSpeed w = Fin 0" "CloudCover w = Fin 0"
    "Visibility w = Fin 10" "Pressure w = Fin 0"
  shows "print_day env u w =
    ([Color env (''[magenta]'' @ epochFormatDate env (Time w)) @ ''\<newline>'',
      ''The temperature high is '' @
        Color env (''[blue]'' @ Sprint_v env (TemperatureMax w) @ Degrees u) @
        '', feels like '' @
        Color env (''[cyan]'' @ Sprint_v env (ApparentTemperatureMax w) @ Degrees u) @
        '' around '' @ epochFormatTime env (TemperatureMaxTime w) u @ '',\<newline>'',
      ''and low is '' @
        Color env (''[blue]'' @ Sprint_v env (TemperatureMin w) @ Degrees u) @
        '', feels like '' @
        Color env (''[cyan]'' @ Sprint_v env (ApparentTemperatureMin w) @ Degrees u) @
        '' around '' @ epochFormatTime env (TemperatureMinTime w) u @
        ''\<newline>\<newline>''], Inr ())"
  by (simp add: print_day_def Let_def printCommon_quiet[OF assms] prog_simps)


subsection \<open>The sample data\<close>

lemma us_profile:
  "map_index UnitFormats ''us'' =
     \<lparr>Degrees = degree_sign @ ''F'', Speed = ''mph'', Length = ''miles'',
      Precipitation = ''in/hr'', LongDate = ''January 2 at 3:04pm MST'',
      Hour = ''3:04pm MST''\<rparr>"
  by (simp add: map_index_def UnitFormats_def)

lemma sample_env_sel:
  "Color sample_env = (\<lambda>s. s)" "Sprint_v sample_env = show_float"
  "Format sample_env = (\<lambda>ns layout. layout)"
  "unrepresentable sample_env = (\<lambda>x. - (2 ^ 63))"
  by (simp_all add: sample_env_def)

lemma show_float_samples:
  "show_float (Fin 60) = ''60''" "show_float (Fin 70) = ''70''"
  "show_float (Fin 72) = ''72''" "show_float (Fin 75) = ''75''"
  "show_float (Fin 80) = ''80''" "show_float (Fin 90) = ''90''"
  by (simp_all add: show_float_def)

section \<open>The unit table\<close>

text \<open>
  Claim C8.  Indexing \<open>UnitFormats\<close> with \<open>us\<close> gives a profile whose degree symbol
  is the degree sign (the two bytes C2 B0 of its UTF-8 encoding) followed by F.
  Indexing it with a key other than \<open>us\<close>, \<open>si\<close>, \<open>ca\<close>, \<open>uk\<close> and \<open>uk2\<close> gives the
  zero value, all six fields empty.  The profile of \<open>uk2\<close> is the profile of
  \<open>uk\<close> with the distance unit \<open>miles\<close> in place of \<open>kilometers\<close>.
\<close>

theorem C8_unit_profiles:
  "Degrees (map_index UnitFormats ''us'') = [CHR 0xC2, CHR 0xB0, CHR ''F''] \<and>
   (k \<notin> {''us'', ''si'', ''ca'', ''uk'', ''uk2''} \<longrightarrow>
      Degrees (map_index UnitFormats k) = [] \<and> Speed (map_index UnitFormats k) = [] \<and>
      Length (map_index UnitFormats k) = [] \<and>
      Precipitation (map_index UnitFormats k) = [] \<and>
      LongDate (map_index UnitFormats k) = [] \<and> Hour (map_index UnitFormats k) = []) \<and>
   map_index UnitFormats ''uk2'' = (map_index UnitFormats ''uk'')\<lparr>Length := ''miles''\<rparr> \<and>
   Length (map_index UnitFormats ''uk'') = ''kilometers'' \<and>
   Length (map_index UnitFormats ''uk2'') = ''miles''"
  by (simp add: map_index_def UnitFormats_def zero_UnitMeasures_def degree_sign_def)

theorem C8_unit_profiles_witness:
  "''unknown-code'' \<notin> {''us'', ''si'', ''ca'', ''uk'', ''uk2''} \<and>
   Degrees (map_index UnitFormats ''unknown-code'') = [] \<and>
   Speed (map_index UnitFormats ''unknown-code'') = [] \<and>
   Length (map_index UnitFormats ''unknown-code'') = [] \<and>
   Precipitation (map_index UnitFormats ''unknown-code'') = [] \<and>
   LongDate (map_index UnitFormats ''unknown-code'') = [] \<and>
   Hour (map_index UnitFormats ''unknown-code'') = []"
  using C8_unit_profiles [of "''unknown-code''"] by simp

section \<open>The icon of a condition\<close>

text \<open>
  Claim C9.  \<open>getIcon\<close> gives the same result, the yellow clear-day glyph, for
  \<open>clear-day\<close>, \<open>clear_day\<close> and \<open>clearday\<close>.  Removing hyphens and underscores
  from a key that has none left changes nothing, \<open>getIcon\<close> gives the same result
  for a key and for the key without them, and two keys that are equal once
  they are removed have the same result.
\<close>

theorem C9_icon_key_normalization:
  "getIcon env ''clear-day'' = (Color env (''[yellow]'' @ Clearday (icons env)), None) \<and>
   getIcon env ''clear_day'' = getIcon env ''clear-day'' \<and>
   getIcon env ''clearday'' = getIcon env ''clear-day'' \<and>
   sterilize (sterilize s) = sterilize s \<and>
   getIcon env (sterilize s) = getIcon env s \<and>
   (sterilize s = sterilize t \<longrightarrow> getIcon env s = getIcon env t)"
  by (simp add: getIcon_def sterilize_filter icon_switch_def)

theorem C9_icon_key_normalization_witness:
  "sterilize ''partly-cloudy_night'' = sterilize ''partly_cloudy-night'' \<and>
   getIcon sample_env ''partly-cloudy_night'' = getIcon sample_env ''partly_cloudy-night''"
  using C9_icon_key_normalization
    [of sample_env "''partly-cloudy_night''" "''partly_cloudy-night''"]
  by (simp add: sterilize_filter)

text \<open>
  Claim C7.  The error that \<open>getIcon\<close> returns is nil for every key.  For a key
  that, without its hyphens and underscores, is none of the case labels, for
  instance \<open>nonsense\<close>, the result is the empty glyph after the tag \<open>[blue]\<close>, passed
  through the colour function.  \<open>PrintCurrent\<close> never returns a non-nil error.
\<close>

theorem C7_icon_never_fails:
  "snd (getIcon env s) = None \<and>
   (sterilize s \<notin> set icon_keys \<longrightarrow> fst (getIcon env s) = Color env ''[blue]'') \<and>
   getIcon env ''nonsense'' = (Color env ''[blue]'', None) \<and>
   snd (PrintCurrent env f g ia hi) \<noteq> Inr (Some e)"
  by (simp add: getIcon_def split_beta icon_switch_def icon_keys_def sterilize_filter
      PrintCurrent_eq printCommon_nil)

theorem C7_icon_never_fails_witness:
  "sterilize ''heat-wave'' \<notin> set icon_keys \<and>
   fst (getIcon sample_env ''heat-wave'') = ''[blue]''"
  using C7_icon_never_fails [of sample_env "''heat-wave''"]
  by (simp add: icon_keys_def sterilize_filter sample_env_def)

section \<open>The bearing\<close>

text \<open>
  Claim C6.  For every bearing from 0 up to, not including, 360 (either zero
  included) \<open>getBearingDetails\<close> returns one of the 16 labels of \<open>Directions\<close>, the
  index being at least 0 and less than 16.  It returns N for 0, E for 90, S for
  180 and W for 270, N for the double nearest to 11.24 and NNE for the double
  nearest to 11.26.
\<close>

theorem C6_bearing_labels:
  "(d = NegZero \<or> (\<exists>q. d = Fin q \<and> 0 \<le> q \<and> q < 360) \<longrightarrow>
      (\<exists>l\<in>set Directions. getBearingDetails env d = Inr l) \<and>
      0 \<le> bearing_index env d \<and> bearing_index env d < 16) \<and>
   length Directions = 16 \<and>
   getBearingDetails env (Fin 0) = Inr ''N'' \<and>
   getBearingDetails env (Fin 90) = Inr ''E'' \<and>
   getBearingDetails env (Fin 180) = Inr ''S'' \<and>
   getBearingDetails env (Fin 270) = Inr ''W'' \<and>
   getBearingDetails env (round64 (1124 / 100)) = Inr ''N'' \<and>
   getBearingDetails env (round64 (1126 / 100)) = Inr ''NNE''"
proof (intro conjI impI)
  assume "d = NegZero \<or> (\<exists>q. d = Fin q \<and> 0 \<le> q \<and> q < 360)"
  then have a: "d = NegZero \<or> (\<exists>q. d = Fin q \<and> 0 \<le> q \<and> q \<le> max_float64)"
    using max_float64_ge by force
  then show "\<exists>l\<in>set Directions. getBearingDetails env d = Inr l" by (rule bearing_label)
  show "0 \<le> bearing_index env d" "bearing_index env d < 16"
    using bearing_index_ok[OF a, of env] by simp_all
next
  show "length Directions = 16" by (rule length_Directions)
  show "getBearingDetails env (Fin 0) = Inr ''N''" by code_simp
  show "getBearingDetails env (Fin 90) = Inr ''E''" by code_simp
  show "getBearingDetails env (Fin 180) = Inr ''S''" by code_simp
  show "getBearingDetails env (Fin 270) = Inr ''W''" by code_simp
  show "getBearingDetails env (round64 (1124 / 100)) = Inr ''N''" by code_simp
  show "getBearingDetails env (round64 (1126 / 100)) = Inr ''NNE''" by code_simp
qed

theorem C6_bearing_labels_witness:
  "(\<exists>q. Fin 45 = Fin q \<and> 0 \<le> q \<and> q < 360) \<and>
   (\<exists>l\<in>set Directions. getBearingDetails sample_env (Fin 45) = Inr l) \<and>
   bearing_index sample_env (Fin 45) < 16 \<and>
   getBearingDetails sample_env (Fin 45) = Inr ''NE''"
proof -
  have "getBearingDetails sample_env (Fin 45) = Inr ''NE''" by code_simp
  with C6_bearing_labels [of "Fin 45" sample_env] show ?thesis by simp
qed




section \<open>The current forecast\<close>

text \<open>
  Claim C10.  In the output of \<open>PrintCurrent\<close> the temperature is the chunk after
  the header (the second chunk when the icon is hidden, the third otherwise).
  It holds the clause \<open>but it feels like\<close> with the formatted apparent temperature
  exactly when the two formatted strings differ, each being the colour function
  applied to the tag \<open>[magenta]\<close>, the printed number and the degree symbol of the
  units; when the two strings are equal it is the plain sentence, whatever the
  two numbers are.
\<close>

theorem C10_feels_like:
  "(if hi then 1 else 2) < length (fst (PrintCurrent env f g ia hi)) \<and>
   fst (PrintCurrent env f g ia hi) ! (if hi then 1 else 2) =
     (if current_temp env f (map_index UnitFormats (Units (Flags f))) =
         current_feelslike env f (map_index UnitFormats (Units (Flags f)))
      then ''The temperature is '' @
           current_temp env f (map_index UnitFormats (Units (Flags f))) @
           ''\<newline>\<newline>''
      else ''The temperature is '' @
           current_temp env f (map_index UnitFormats (Units (Flags f))) @
           '', but it feels like '' @
           current_feelslike env f (map_index UnitFormats (Units (Flags f))) @
           ''\<newline>\<newline>'') \<and>
   (fst (PrintCurrent env f g ia hi) ! (if hi then 1 else 2) =
      ''The temperature is '' @
      current_temp env f (map_index UnitFormats (Units (Flags f))) @
      '', but it feels like '' @
      current_feelslike env f (map_index UnitFormats (Units (Flags f))) @
      ''\<newline>\<newline>'' \<longleftrightarrow>
    current_temp env f (map_index UnitFormats (Units (Flags f))) \<noteq>
    current_feelslike env f (map_index UnitFormats (Units (Flags f)))) \<and>
   current_temp env f (map_index UnitFormats (Units (Flags f))) =
     Color env (''[magenta]'' @ Sprint_v env (Temperature (Currently f)) @
       Degrees (map_index UnitFormats (Units (Flags f)))) \<and>
   current_feelslike env f (map_index UnitFormats (Units (Flags f))) =
     Color env (''[magenta]'' @ Sprint_v env (ApparentTemperature (Currently f)) @
       Degrees (map_index UnitFormats (Units (Flags f))))"
  by (simp add: PrintCurrent_eq print_temperature_eq current_temp_def current_feelslike_def)

theorem C10_feels_like_witness:
  "fst (PrintCurrent sample_env (fc_current calm []) sample_geo True True) ! 1 =
     ''The temperature is [magenta]72'' @ degree_sign @ ''F\<newline>\<newline>'' \<and>
   fst (PrintCurrent sample_env (fc_current chilly []) sample_geo True True) ! 1 =
     ''The temperature is [magenta]72'' @ degree_sign @
     ''F, but it feels like [magenta]70'' @ degree_sign @ ''F\<newline>\<newline>''"
  using C10_feels_like [of True sample_env "fc_current calm []" sample_geo True]
    C10_feels_like [of True sample_env "fc_current chilly []" sample_geo True]
  by (simp add: fc_current_def us_profile sample_env_sel calm_def chilly_def
      show_float_samples current_temp_def current_feelslike_def)

text \<open>
  Claim C1, as the specification states it: an alert whose title and description
  are both empty produces no output.  It fails on a forecast whose only alert
  is the empty one: with the icon hidden the output is the header, the
  temperature and then the created and the expires line of that alert.
\<close>

theorem C1_empty_alert_prints_dates:
  "fst (PrintCurrent sample_env (fc_current calm [empty_alert]) sample_geo False True) =
     [''\<newline>Current weather is [cyan]Clear in [green]Oulu in FI for [cyan]January 2 at 3:04pm MST\<newline>'',
      ''The temperature is [magenta]72'' @ degree_sign @ ''F\<newline>\<newline>'',
      tabs @ ''[red]Created: January 2 at 3:04pm MST\<newline>'',
      tabs @ ''[red]Expires: January 2 at 3:04pm MST\<newline>\<newline>'']"
  by (simp add: PrintCurrent_eq fc_current_def us_profile printCommon_quiet print_alert_eq
      empty_alert_def sample_env_sel sample_geo_def epochFormat_def print_temperature_eq
      current_temp_def current_feelslike_def show_float_samples calm_def)

text \<open>
  Claim C1, amended.  With alerts not ignored, \<open>PrintCurrent\<close> writes, between the
  temperature and the metrics, the chunks of each alert in order.  For every
  alert these are the title line when the title is not empty, the description
  when it is not empty, and always the created line and the expires line.  So
  an alert with an empty title and an empty description produces exactly the
  created and the expires line, and an alert with a title and an empty
  description produces exactly the title line, the created line and the expires
  line.
\<close>

theorem C1_alert_lines:
  "fst (PrintCurrent env f g False hi) =
     take (if hi then 2 else 3) (fst (PrintCurrent env f g True hi)) @
     concat (map (\<lambda>a. fst (print_alert env (map_index UnitFormats (Units (Flags f))) a))
       (Alerts f)) @
     drop (if hi then 2 else 3) (fst (PrintCurrent env f g True hi)) \<and>
   (Title a = [] \<and> Description a = [] \<longrightarrow>
      fst (print_alert env u a) =
        [tabs @ Color env (''[red]Created: '' @ epochFormat env (Alert.Time a) u) @
           ''\<newline>'',
         tabs @ Color env (''[red]Expires: '' @ epochFormat env (Expires a) u) @
           ''\<newline>\<newline>'']) \<and>
   (Title a \<noteq> [] \<and> Description a = [] \<longrightarrow>
      fst (print_alert env u a) =
        [Color env (''[red]'' @ Title a) @ ''\<newline>'',
         tabs @ Color env (''[red]Created: '' @ epochFormat env (Alert.Time a) u) @
           ''\<newline>'',
         tabs @ Color env (''[red]Expires: '' @ epochFormat env (Expires a) u) @
           ''\<newline>\<newline>'']) \<and>
   fst (print_alert env u a) =
     (if Title a \<noteq> [] then [Color env (''[red]'' @ Title a) @ ''\<newline>''] else []) @
     (if Description a \<noteq> [] then [Color env (''[red]'' @ Description a)] else []) @
     [tabs @ Color env (''[red]Created: '' @ epochFormat env (Alert.Time a) u) @
        ''\<newline>'',
      tabs @ Color env (''[red]Expires: '' @ epochFormat env (Expires a) u) @
        ''\<newline>\<newline>'']"
  by (simp add: PrintCurrent_eq print_temperature_eq print_alert_eq)

theorem C1_alert_lines_witness:
  "Title title_alert \<noteq> [] \<and> Description title_alert = [] \<and>
   fst (print_alert sample_env (map_index UnitFormats ''us'') title_alert) =
     [''[red]Flood\<newline>'',
      tabs @ ''[red]Created: January 2 at 3:04pm MST\<newline>'',
      tabs @ ''[red]Expires: January 2 at 3:04pm MST\<newline>\<newline>''] \<and>
   Title empty_alert = [] \<and> Description empty_alert = [] \<and>
   fst (print_alert sample_env (map_index UnitFormats ''us'') empty_alert) =
     [tabs @ ''[red]Created: January 2 at 3:04pm MST\<newline>'',
      tabs @ ''[red]Expires: January 2 at 3:04pm MST\<newline>\<newline>'']"
  using C1_alert_lines [of sample_env _ _ _ title_alert "map_index UnitFormats ''us''"]
    C1_alert_lines [of sample_env _ _ _ empty_alert "map_index UnitFormats ''us''"]
  by (simp add: title_alert_def empty_alert_def us_profile sample_env_sel epochFormat_def)

section \<open>The daily forecast\<close>

text \<open>
  Claim C4.  When the daily sequence of the forecast is empty, \<open>PrintDaily\<close>
  writes nothing and panics on the slice expression \<open>Data[1:]\<close>, the bounds 1 and 0
  being out of range.  When the sequence holds at least one sample the slice
  expression does not panic.
\<close>

theorem C4_empty_daily:
  "(Data (Daily f) = [] \<longrightarrow> PrintDaily env f days = ([], Inl (SliceBoundsOutOfRange 1 0))) \<and>
   (Data (Daily f) \<noteq> [] \<longrightarrow> snd (PrintDaily env f days) \<noteq> Inl (SliceBoundsOutOfRange lo n))"
proof (intro conjI impI)
  assume "Data (Daily f) = []"
  then show "PrintDaily env f days = ([], Inl (SliceBoundsOutOfRange 1 0))"
    by (simp add: PrintDaily_eq)
next
  assume "Data (Daily f) \<noteq> []"
  then show "snd (PrintDaily env f days) \<noteq> Inl (SliceBoundsOutOfRange lo n)"
    by (simp add: PrintDaily_eq days_no_slice)
qed

theorem C4_empty_daily_witness:
  "Data (Daily (fc_daily [])) = [] \<and>
   PrintDaily sample_env (fc_daily []) 3 = ([], Inl (SliceBoundsOutOfRange 1 0)) \<and>
   Data (Daily (fc_daily [calm])) \<noteq> [] \<and>
   snd (PrintDaily sample_env (fc_daily [calm]) 3) \<noteq> Inl (SliceBoundsOutOfRange 1 0)"
  using C4_empty_daily [of "fc_daily []" sample_env 3]
    C4_empty_daily [of "fc_daily [calm]" sample_env 3 1 0]
  by (simp add: fc_daily_def)

text \<open>
  Claim C2, as the specification states it: with a negative day count
  \<open>PrintDaily\<close> prints nothing.  It fails for the day count -1 on a forecast of two
  daily samples: the index never equals -1, and the block of the second sample
  is written.
\<close>

theorem C2_negative_days_print_all:
  "PrintDaily sample_env (fc_daily [calm, calm]) (- 1) =
     ([''[magenta]January 2 (Monday)\<newline>'',
       ''The temperature high is [blue]75'' @ degree_sign @ ''F, feels like [cyan]75'' @
         degree_sign @ ''F around 3:04pm MST,\<newline>'',
       ''and low is [blue]60'' @ degree_sign @ ''F, feels like [cyan]60'' @
         degree_sign @ ''F around 3:04pm MST\<newline>\<newline>''],
      Inr None)"
  by (simp add: PrintDaily_eq fc_daily_def us_profile print_day_quiet calm_def
      sample_env_sel show_float_samples epochFormatDate_def epochFormatTime_def prog_simps)

text \<open>
  Claim C2, amended.  With the day count 0 \<open>PrintDaily\<close> prints nothing.  With a
  negative day count the loop never breaks: on a forecast with at least one
  daily sample \<open>PrintDaily\<close> runs the block of every sample after the first, in
  order.
\<close>

theorem C2_zero_or_negative_days:
  "fst (PrintDaily env f 0) = [] \<and>
   (days < 0 \<and> Data (Daily f) \<noteq> [] \<longrightarrow>
      PrintDaily env f days =
        then_do (do_all (map (print_day env (map_index UnitFormats (Units (Flags f))))
                  (tl (Data (Daily f)))))
          (ret None))"
  by (simp add: PrintDaily_eq prog_simps)

theorem C2_zero_or_negative_days_witness:
  "(- 1 :: int) < 0 \<and> Data (Daily (fc_daily [calm, warm, hot])) \<noteq> [] \<and>
   PrintDaily sample_env (fc_daily [calm, warm, hot]) (- 1) =
     then_do (do_all [print_day sample_env (map_index UnitFormats ''us'') warm,
                      print_day sample_env (map_index UnitFormats ''us'') hot])
       (ret None)"
  using C2_zero_or_negative_days [of sample_env "fc_daily [calm, warm, hot]" "- 1"]
  by (simp add: fc_daily_def)




end
